theory Spec2Isabelle
  imports Complex_Main
begin

section \<open>Errors raised by the modelled code\<close>

text \<open>
  Every exception that the Python source itself can raise is a value.  The string of an
  \<open>AssertionError\<close> is the message passed to \<^verbatim>\<open>torch._assert\<close> or \<^verbatim>\<open>assert\<close>.
\<close>

datatype error =
    AssertionError string
  | ZeroDivisionError
  | IndexError
  | AttributeError
  | ValueError
  | RuntimeError

section \<open>Metrics utilities of the driver (main.py)\<close>

subsection \<open>AverageMeter\<close>

text \<open>
  \<^verbatim>\<open>class Summary(Enum): NONE = 0; AVERAGE = 1; SUM = 2; COUNT = 3\<close>
\<close>

datatype Summary = Summary_NONE | Summary_AVERAGE | Summary_SUM | Summary_COUNT

text \<open>
  The meter object.  Python numbers are modelled by exact rationals; the \<^verbatim>\<open>device\<close>
  field is only used by \<^verbatim>\<open>all_reduce\<close> and is left out.  The field \<^verbatim>\<open>sum\<close> is
  called \<open>sum_v\<close> and \<^verbatim>\<open>count\<close> is called \<open>count_v\<close>.
\<close>

record AverageMeter =
  name :: string
  fmt :: string
  summary_type :: Summary
  val :: rat
  avg :: rat
  sum_v :: rat
  count_v :: rat

definition reset :: "AverageMeter \<Rightarrow> AverageMeter" where
  "reset m = m\<lparr>val := 0, avg := 0, sum_v := 0, count_v := 0\<rparr>"

definition AverageMeter_init :: "string \<Rightarrow> string \<Rightarrow> Summary \<Rightarrow> AverageMeter" where
  "AverageMeter_init nm f st =
     reset \<lparr>name = nm, fmt = f, summary_type = st, val = 0, avg = 0, sum_v = 0, count_v = 0\<rparr>"

text \<open>
  \<^verbatim>\<open>update(val, n=1)\<close>: the three assignments are followed by the division
  \<^verbatim>\<open>self.sum / self.count\<close>, which raises \<^verbatim>\<open>ZeroDivisionError\<close> when the new count
  is zero.  The exception leaves the call; the fields already assigned are not read
  again by the model.
\<close>

definition update :: "AverageMeter \<Rightarrow> rat \<Rightarrow> rat \<Rightarrow> error + AverageMeter" where
  "update m v n =
     (let s = sum_v m + v * n;
          c = count_v m + n
      in if c = 0 then Inl ZeroDivisionError
         else Inr (m\<lparr>val := v, sum_v := s, count_v := c, avg := s / c\<rparr>))"

text \<open>A sequence of \<^verbatim>\<open>update\<close> calls; the first exception ends it.\<close>

fun update_all :: "AverageMeter \<Rightarrow> (rat \<times> rat) list \<Rightarrow> error + AverageMeter" where
  "update_all m [] = Inr m"
| "update_all m ((v, n) # us) =
     (case update m v n of Inl e \<Rightarrow> Inl e | Inr m' \<Rightarrow> update_all m' us)"

text \<open>
  \<^verbatim>\<open>__str__\<close> and \<^verbatim>\<open>summary\<close> build a format string and apply \<^verbatim>\<open>str.format\<close>.
  The rendering of a number under a format specification (\<^verbatim>\<open>':6.3f'\<close>, \<^verbatim>\<open>':.3f'\<close>)
  is Python's own; it is the parameter \<open>pf\<close>.
\<close>

definition str_meter :: "(string \<Rightarrow> rat \<Rightarrow> string) \<Rightarrow> AverageMeter \<Rightarrow> string" where
  "str_meter pf m = name m @ '' '' @ pf (fmt m) (val m) @ '' ('' @ pf (fmt m) (avg m) @ '')''"

definition summary :: "(string \<Rightarrow> rat \<Rightarrow> string) \<Rightarrow> AverageMeter \<Rightarrow> string" where
  "summary pf m =
     (case summary_type m of
        Summary_NONE \<Rightarrow> ''''
      | Summary_AVERAGE \<Rightarrow> name m @ '' '' @ pf '':.3f'' (avg m)
      | Summary_SUM \<Rightarrow> name m @ '' '' @ pf '':.3f'' (sum_v m)
      | Summary_COUNT \<Rightarrow> name m @ '' '' @ pf '':.3f'' (count_v m))"

subsection \<open>ProgressMeter\<close>

text \<open>\<^verbatim>\<open>str(i)\<close> for a Python integer.\<close>

definition digit :: "nat \<Rightarrow> char" where
  "digit d = ''0123456789'' ! (d mod 10)"

function str_nat :: "nat \<Rightarrow> string" where
  "str_nat n = (if n < 10 then [digit n] else str_nat (n div 10) @ [digit (n mod 10)])"
  by pat_completeness auto
termination
  by (relation "measure id") auto

definition str_int :: "int \<Rightarrow> string" where
  "str_int i = (if i < 0 then CHR ''-'' # str_nat (nat (- i)) else str_nat (nat i))"

text \<open>
  The replacement field \<^verbatim>\<open>{:Nd}\<close> applied to an integer: the decimal text, right-aligned
  in a field of at least \<open>N\<close> characters, filled with spaces on the left.
\<close>

definition format_d :: "nat \<Rightarrow> int \<Rightarrow> string" where
  "format_d width i = replicate (width - length (str_int i)) CHR '' '' @ str_int i"

text \<open>
  A format string with integer fields, as \<^verbatim>\<open>_get_batch_fmtstr\<close> builds it: literal text
  and \<^verbatim>\<open>{:Nd}\<close> fields, each field consuming the (single) argument.
\<close>

datatype piece = Lit string | FieldD nat

fun format_piece :: "int \<Rightarrow> piece \<Rightarrow> string" where
  "format_piece a (Lit s) = s"
| "format_piece a (FieldD w) = format_d w a"

definition format_int :: "piece list \<Rightarrow> int \<Rightarrow> string" where
  "format_int ps a = concat (map (format_piece a) ps)"

record ProgressMeter =
  batch_fmtstr :: "piece list"
  meters :: "AverageMeter list"
  prefix :: string

text \<open>
  \<^verbatim>\<open>num_digits = len(str(num_batches // 1)); fmt = '{:' + str(num_digits) + 'd}';
  return '[' + fmt + '/' + fmt.format(num_batches) + ']'\<close>
\<close>

definition get_batch_fmtstr :: "int \<Rightarrow> piece list" where
  "get_batch_fmtstr num_batches =
     (let num_digits = length (str_int num_batches)
      in [Lit ''['', FieldD num_digits, Lit (''/'' @ format_d num_digits num_batches @ '']'')])"

definition ProgressMeter_init :: "int \<Rightarrow> AverageMeter list \<Rightarrow> string \<Rightarrow> ProgressMeter" where
  "ProgressMeter_init num_batches ms pre =
     \<lparr>batch_fmtstr = get_batch_fmtstr num_batches, meters = ms, prefix = pre\<rparr>"

text \<open>\<^verbatim>\<open>sep.join(entries)\<close>\<close>

fun join :: "string \<Rightarrow> string list \<Rightarrow> string" where
  "join sep [] = ''''"
| "join sep [e] = e"
| "join sep (e # es) = e @ sep @ join sep es"

text \<open>
  \<^verbatim>\<open>display(batch)\<close>; the result is the text written to standard output, with the
  newline that \<^verbatim>\<open>print\<close> appends.
\<close>

definition display :: "(string \<Rightarrow> rat \<Rightarrow> string) \<Rightarrow> ProgressMeter \<Rightarrow> int \<Rightarrow> string" where
  "display pf pm batch =
     (let entries = [prefix pm @ format_int (batch_fmtstr pm) batch] @ map (str_meter pf) (meters pm)
      in join [CHR 0x09] entries @ [CHR 0x0A])"

section \<open>Training driver (main.py)\<close>

subsection \<open>Step-count derivation in \<^verbatim>\<open>main_worker\<close>\<close>

text \<open>
  Python's \<^verbatim>\<open>round(x)\<close> with one argument: the nearest integer, a tie going to the even
  neighbour.
\<close>

definition py_round :: "rat \<Rightarrow> int" where
  "py_round x =
     (let f = \<lfloor>x\<rfloor>; d = x - of_int f
      in if d < 1 / 2 then f
         else if 1 / 2 < d then f + 1
         else if even f then f else f + 1)"

text \<open>
  \<^verbatim>\<open>a / b\<close> on Python integers is true division: it raises \<^verbatim>\<open>ZeroDivisionError\<close> for
  \<open>b = 0\<close> and otherwise gives the double nearest to the exact quotient.  That rounding
  to a double is the parameter \<open>fl\<close>; the quotient is assumed to be in the range of a
  double.
\<close>

definition true_div :: "(rat \<Rightarrow> rat) \<Rightarrow> int \<Rightarrow> int \<Rightarrow> error + rat" where
  "true_div fl a b = (if b = 0 then Inl ZeroDivisionError else Inr (fl (of_int a / of_int b)))"

text \<open>
  \<^verbatim>\<open>total_steps = round(n * args.epochs / args.total_batch_size)
  args.specified_steps = {round(n * epoch / args.total_batch_size) for epoch in args.log_epoch}
  args.specified_steps.add(total_steps)\<close>

  The result is the pair \<open>(total_steps, specified_steps)\<close>.
\<close>

fun round_steps :: "(rat \<Rightarrow> rat) \<Rightarrow> int \<Rightarrow> int \<Rightarrow> int list \<Rightarrow> error + int list" where
  "round_steps fl n b [] = Inr []"
| "round_steps fl n b (epoch # es) =
     (case true_div fl (n * epoch) b of
        Inl e \<Rightarrow> Inl e
      | Inr q \<Rightarrow> (case round_steps fl n b es of
                   Inl e \<Rightarrow> Inl e
                 | Inr ss \<Rightarrow> Inr (py_round q # ss)))"

definition derive_steps ::
  "(rat \<Rightarrow> rat) \<Rightarrow> int \<Rightarrow> int \<Rightarrow> int \<Rightarrow> int list \<Rightarrow> error + (int \<times> int set)" where
  "derive_steps fl n epochs total_batch_size log_epoch =
     (case true_div fl (n * epochs) total_batch_size of
        Inl e \<Rightarrow> Inl e
      | Inr q \<Rightarrow>
          (let total_steps = py_round q
           in case round_steps fl n total_batch_size log_epoch of
                Inl e \<Rightarrow> Inl e
              | Inr ss \<Rightarrow> Inr (total_steps, insert total_steps (set ss))))"

subsection \<open>Best accuracy across \<^verbatim>\<open>main_worker\<close> and \<^verbatim>\<open>train\<close>\<close>

text \<open>
  The module-level variable \<^verbatim>\<open>best_acc1 = 0\<close> is the process-wide state.  A checkpoint
  holds, among the state dictionaries that are left out here, the step and the best
  accuracy.
\<close>

record globals =
  best_acc1 :: rat

definition module_globals :: globals where
  "module_globals = \<lparr>best_acc1 = 0\<rparr>"

record checkpoint =
  ckpt_step :: int
  ckpt_best_acc1 :: rat

text \<open>
  The resume block of \<^verbatim>\<open>main_worker\<close>, which runs under \<^verbatim>\<open>global best_acc1\<close>:
  \<^verbatim>\<open>args.start_step = checkpoint['step']; best_acc1 = checkpoint['best_acc1']\<close>.
  Without a checkpoint nothing changes.  The result is the globals and \<^verbatim>\<open>args.start_step\<close>.
\<close>

definition resume :: "globals \<Rightarrow> int \<Rightarrow> checkpoint option \<Rightarrow> globals \<times> int" where
  "resume g start_step ck =
     (case ck of
        None \<Rightarrow> (g, start_step)
      | Some c \<Rightarrow> (g\<lparr>best_acc1 := ckpt_best_acc1 c\<rparr>, ckpt_step c))"

text \<open>
  One checkpoint written by \<^verbatim>\<open>train\<close>: the step, the \<^verbatim>\<open>'best_acc1'\<close> entry and the
  \<^verbatim>\<open>is_best\<close> flag handed to \<^verbatim>\<open>save_checkpoint\<close> (which then overwrites
  \<^verbatim>\<open>model_best.pth.tar\<close>).
\<close>

record saved =
  saved_step :: int
  saved_best_acc1 :: rat
  saved_is_best :: bool

text \<open>
  The loop of \<^verbatim>\<open>train\<close> over \<^verbatim>\<open>range(start_step + 1, total_steps + 1)\<close>, reduced to
  what concerns the best accuracy: at a step with
  \<^verbatim>\<open>step % args.log_steps == 0 or step in args.specified_steps\<close> the model is validated
  (\<open>validate step\<close> is the accuracy returned), then
  \<^verbatim>\<open>is_best = acc1 > best_acc1; best_acc1 = max(acc1, best_acc1)\<close> and the checkpoint is
  saved (on the primary process).  The argument \<open>best\<close> is the variable \<^verbatim>\<open>best_acc1\<close>
  of \<^verbatim>\<open>train\<close>.
\<close>

fun train_loop ::
  "(int \<Rightarrow> rat) \<Rightarrow> int \<Rightarrow> int set \<Rightarrow> rat \<Rightarrow> int list \<Rightarrow> error + saved list" where
  "train_loop validate log_steps specified best [] = Inr []"
| "train_loop validate log_steps specified best (step # steps) =
     (if log_steps = 0 then Inl ZeroDivisionError
      else if step mod log_steps = 0 \<or> step \<in> specified then
        (let acc1 = validate step;
             is_best = (best < acc1);
             best' = max acc1 best
         in case train_loop validate log_steps specified best' steps of
              Inl e \<Rightarrow> Inl e
            | Inr ss \<Rightarrow>
                Inr (\<lparr>saved_step = step, saved_best_acc1 = best', saved_is_best = is_best\<rparr> # ss))
      else train_loop validate log_steps specified best steps)"

text \<open>
  \<^verbatim>\<open>train\<close> has no \<^verbatim>\<open>global\<close> statement: its assignment \<^verbatim>\<open>best_acc1 = 0\<close> before the
  loop makes \<^verbatim>\<open>best_acc1\<close> a local variable of \<^verbatim>\<open>train\<close>.  The globals pass through
  unread and unchanged.
\<close>

definition train ::
  "globals \<Rightarrow> (int \<Rightarrow> rat) \<Rightarrow> int \<Rightarrow> int set \<Rightarrow> int \<Rightarrow> int \<Rightarrow> globals \<times> (error + saved list)" where
  "train g validate log_steps specified start_step total_steps =
     (let best = 0
      in (g, train_loop validate log_steps specified best [start_step + 1 .. total_steps]))"

text \<open>\<^verbatim>\<open>main_worker\<close> from the resume block to the call of \<^verbatim>\<open>train\<close>.\<close>

definition main_worker ::
  "globals \<Rightarrow> checkpoint option \<Rightarrow> (int \<Rightarrow> rat) \<Rightarrow> int \<Rightarrow> int set \<Rightarrow> int \<Rightarrow> int \<Rightarrow>
   globals \<times> (error + saved list)" where
  "main_worker g ck validate log_steps specified start_step total_steps =
     (case resume g start_step ck of
        (g', start) \<Rightarrow> train g' validate log_steps specified start total_steps)"

section \<open>The model (simple_vit.py)\<close>

subsection \<open>Tensor values\<close>

text \<open>
  An element of a floating-point tensor is a real number or NaN (\<open>None\<close>); rounding and
  overflow to an infinity are not modelled.  Arithmetic on NaN gives NaN.  A vector is a
  list, a matrix a list of rows, a batch of token sequences a list of matrices.
\<close>

type_synonym fl = "real option"
type_synonym vec = "fl list"
type_synonym mat = "vec list"

definition fadd :: "fl \<Rightarrow> fl \<Rightarrow> fl" where
  "fadd a b = (case a of None \<Rightarrow> None | Some x \<Rightarrow> (case b of None \<Rightarrow> None | Some y \<Rightarrow> Some (x + y)))"

definition fmul :: "fl \<Rightarrow> fl \<Rightarrow> fl" where
  "fmul a b = (case a of None \<Rightarrow> None | Some x \<Rightarrow> (case b of None \<Rightarrow> None | Some y \<Rightarrow> Some (x * y)))"

definition fsum :: "vec \<Rightarrow> fl" where
  "fsum xs = foldr fadd xs (Some 0)"

text \<open>
  Tensor division of a finite numerator by a finite denominator.  \<open>0 / 0\<close> is NaN.  A
  non-zero numerator over zero would be an infinity; the only division of a tensor in
  the source, in \<^verbatim>\<open>posemb_sincos_2d\<close>, has a zero denominator only when its sole
  numerator is zero.
\<close>

definition tdiv :: "real \<Rightarrow> real \<Rightarrow> fl" where
  "tdiv a b = (if b = 0 then None else Some (a / b))"

subsection \<open>\<^verbatim>\<open>posemb_sincos_2d\<close>\<close>

text \<open>
  \<^verbatim>\<open>y, x = torch.meshgrid(torch.arange(h), torch.arange(w), indexing="ij")\<close> followed by
  \<^verbatim>\<open>flatten()\<close>: the row index and the column index of every cell, cells in row-major
  order.
\<close>

definition meshgrid_y :: "nat \<Rightarrow> nat \<Rightarrow> nat list" where
  "meshgrid_y h w = concat (map (\<lambda>i. replicate w i) [0..<h])"

definition meshgrid_x :: "nat \<Rightarrow> nat \<Rightarrow> nat list" where
  "meshgrid_x h w = concat (replicate h [0..<w])"

text \<open>
  \<^verbatim>\<open>omega = torch.arange(dim // 4) / (dim // 4 - 1); omega = 1.0 / (temperature ** omega)\<close>
  with the default \<^verbatim>\<open>temperature = 10000\<close>, which the only caller uses.
\<close>

definition omega_exponent :: "nat \<Rightarrow> vec" where
  "omega_exponent d =
     map (\<lambda>k. tdiv (real k) (real_of_int (int (d div 4) - 1))) [0..<d div 4]"

definition omega :: "nat \<Rightarrow> vec" where
  "omega d =
     map (\<lambda>e. case e of None \<Rightarrow> None | Some r \<Rightarrow> Some (1 / (10000 powr r))) (omega_exponent d)"

text \<open>\<^verbatim>\<open>v.flatten()[:, None] * omega[None, :]\<close>: one row per cell.\<close>

definition outer :: "nat list \<Rightarrow> vec \<Rightarrow> mat" where
  "outer vs om = map (\<lambda>v. map (\<lambda>e. fmul (Some (real v)) e) om) vs"

text \<open>
  \<^verbatim>\<open>pe = torch.cat((x.sin(), x.cos(), y.sin(), y.cos()), dim=1)\<close>, after the assertion on
  the dimension.  The closing \<^verbatim>\<open>pe.type(dtype)\<close> only rounds and is left out.
\<close>

definition posemb_sincos_2d :: "nat \<Rightarrow> nat \<Rightarrow> nat \<Rightarrow> error + mat" where
  "posemb_sincos_2d h w d =
     (if d mod 4 \<noteq> 0
      then Inl (AssertionError ''feature dimension must be multiple of 4 for sincos emb'')
      else
        (let y = outer (meshgrid_y h w) (omega d);
             x = outer (meshgrid_x h w) (omega d)
         in Inr (map (\<lambda>(xr, yr). map (map_option sin) xr @ map (map_option cos) xr
                                  @ map (map_option sin) yr @ map (map_option cos) yr)
                     (zip x y))))"

subsection \<open>\<^verbatim>\<open>SimpleVisionTransformer\<close>\<close>

text \<open>The layers of \<^verbatim>\<open>self.heads\<close>, an \<^verbatim>\<open>nn.Sequential\<close> over named layers.\<close>

datatype layer = Linear mat vec | Tanh

definition dot :: "vec \<Rightarrow> vec \<Rightarrow> fl" where
  "dot xs ws = fsum (map (\<lambda>(x, w). fmul x w) (zip xs ws))"

text \<open>
  \<^verbatim>\<open>nn.Linear\<close> with weight \<open>W\<close> (one row per output feature) and bias \<open>b\<close> maps every
  row \<open>x\<close> to \<open>x W\<^sup>T + b\<close>; \<^verbatim>\<open>nn.Tanh\<close> acts elementwise.
\<close>

fun apply_layer :: "layer \<Rightarrow> mat \<Rightarrow> mat" where
  "apply_layer (Linear W b) xs = map (\<lambda>x. map (\<lambda>(wr, bi). fadd (dot x wr) bi) (zip W b)) xs"
| "apply_layer Tanh xs = map (map (map_option tanh)) xs"

definition sequential :: "(string \<times> layer) list \<Rightarrow> mat \<Rightarrow> mat" where
  "sequential ls xs = foldl (\<lambda>acc l. apply_layer (snd l) acc) xs ls"

text \<open>
  An input batch: its shape \<open>(n, c, h, w)\<close> and its pixel data, which only the
  convolution reads.
\<close>

record 'px image_batch =
  shape_n :: nat
  shape_c :: nat
  shape_h :: nat
  shape_w :: nat
  pixels :: 'px

text \<open>
  The constructor arguments.  Sizes and counts are natural numbers.  The arguments
  \<^verbatim>\<open>dropout\<close>, \<^verbatim>\<open>attention_dropout\<close>, \<^verbatim>\<open>norm_layer\<close> and \<^verbatim>\<open>use_flash\<close> only configure
  library modules and are left out.
\<close>

record vit_args =
  arg_image_size :: nat
  arg_patch_size :: nat
  arg_num_layers :: nat
  arg_num_heads :: nat
  arg_hidden_dim :: nat
  arg_mlp_dim :: nat
  arg_num_classes :: nat
  arg_posemb :: string
  arg_representation_size :: "nat option"
  arg_pool_type :: string
  arg_register :: nat

text \<open>
  What the tensor library supplies to the constructor: the patch convolution and the
  encoder stack as functions (their weights are drawn at random), and the random draws
  for the learned embeddings and for the weight of \<^verbatim>\<open>pre_logits\<close>.  The convolution
  returns a tensor of shape \<open>(n, hidden_dim, n_h, n_w)\<close>.  Library calls are taken to
  succeed and to return tensors of the shapes the source expects.
\<close>

record 'px library =
  lib_conv_proj :: "'px image_batch \<Rightarrow> fl list list list list"
  lib_encoder :: "mat list \<Rightarrow> mat list"
  lib_learned_embeddings :: "nat \<Rightarrow> mat"
  lib_pre_logits_weight :: mat

text \<open>The attributes of a constructed model that \<^verbatim>\<open>forward\<close> reads.\<close>

record 'px vit =
  image_size :: nat
  patch_size :: nat
  hidden_dim :: nat
  num_classes :: nat
  pool_type :: string
  register :: nat
  reg :: "mat option"
  conv_proj :: "'px image_batch \<Rightarrow> fl list list list list"
  pos_embedding :: "mat option"
  encoder :: "mat list \<Rightarrow> mat list"
  seq_length :: nat
  heads :: "(string \<times> layer) list"

text \<open>
  \<^verbatim>\<open>_learned_embeddings(num)\<close> draws with \<^verbatim>\<open>std=math.sqrt(1 / self.hidden_dim)\<close>, a
  Python division.
\<close>

definition learned_embeddings :: "'px library \<Rightarrow> nat \<Rightarrow> nat \<Rightarrow> error + mat" where
  "learned_embeddings lib hidden num =
     (if hidden = 0 then Inl ZeroDivisionError else Inr (lib_learned_embeddings lib num))"

text \<open>
  The constructor of \<^verbatim>\<open>Encoder\<close> builds \<^verbatim>\<open>num_layers\<close> blocks; each block computes
  \<^verbatim>\<open>hidden_dim // num_heads\<close> and \<^verbatim>\<open>math.sqrt(3 / hidden_dim)\<close>.  The version assertion
  of \<^verbatim>\<open>Attend\<close> cannot fail: the module imports \<^verbatim>\<open>torch.nn.attention\<close>, which the
  versions below 2.0 do not have.
\<close>

definition encoder_init :: "'px library \<Rightarrow> nat \<Rightarrow> nat \<Rightarrow> nat \<Rightarrow> error + (mat list \<Rightarrow> mat list)" where
  "encoder_init lib layers nheads hidden =
     (if layers = 0 then Inr (lib_encoder lib)
      else if nheads = 0 then Inl ZeroDivisionError
      else if hidden = 0 then Inl ZeroDivisionError
      else Inr (lib_encoder lib))"

text \<open>
  The head layers: \<^verbatim>\<open>head\<close> alone, or \<^verbatim>\<open>pre_logits\<close>, \<^verbatim>\<open>act\<close>, \<^verbatim>\<open>head\<close>.
  \<^verbatim>\<open>jax_lecun_normal(self.heads.pre_logits, fan_in)\<close> divides by \<^verbatim>\<open>fan_in\<close>
  \<open>= hidden_dim\<close>, redraws the weight and zeroes the bias; the weight and the bias of
  \<^verbatim>\<open>head\<close> are zeroed.
\<close>

definition zeros :: "nat \<Rightarrow> vec" where
  "zeros k = replicate k (Some 0)"

definition heads_init :: "'px library \<Rightarrow> nat \<Rightarrow> nat option \<Rightarrow> nat \<Rightarrow> error + (string \<times> layer) list" where
  "heads_init lib hidden representation_size classes =
     (case representation_size of
        None \<Rightarrow> Inr [(''head'', Linear (replicate classes (zeros hidden)) (zeros classes))]
      | Some rs \<Rightarrow>
          (if hidden = 0 then Inl ZeroDivisionError
           else Inr [(''pre_logits'', Linear (lib_pre_logits_weight lib) (zeros rs)),
                     (''act'', Tanh),
                     (''head'', Linear (replicate classes (zeros rs)) (zeros classes))]))"

text \<open>Sequencing of steps that can raise.\<close>

definition bind_err :: "error + 'a \<Rightarrow> ('a \<Rightarrow> error + 'b) \<Rightarrow> error + 'b" where
  "bind_err r f = (case r of Inl e \<Rightarrow> Inl e | Inr v \<Rightarrow> f v)"

text \<open>
  \<^verbatim>\<open>__init__\<close>, in the order of the source: the divisibility assertion (its
  \<^verbatim>\<open>image_size % patch_size\<close> raises for a zero patch size), the register tokens, the
  positional embedding, the encoder, the heads.
\<close>

definition SimpleVisionTransformer_init :: "vit_args \<Rightarrow> 'px library \<Rightarrow> error + 'px vit" where
  "SimpleVisionTransformer_init a lib =
     (if arg_patch_size a = 0 then Inl ZeroDivisionError
      else if arg_image_size a mod arg_patch_size a \<noteq> 0
      then Inl (AssertionError ''Input shape indivisible by patch size!'')
      else
        (let r = arg_register a + (if arg_pool_type a = ''tok'' then 1 else 0);
             h = arg_image_size a div arg_patch_size a;
             w = h;
             sl = h * w
         in bind_err
              (if r = 1 then Inr (Some [zeros (arg_hidden_dim a)])
               else if 1 < r then bind_err (learned_embeddings lib (arg_hidden_dim a) r) (\<lambda>e. Inr (Some e))
               else Inr None)
              (\<lambda>rg. bind_err
                 (if arg_posemb a = ''sincos2d''
                  then bind_err (posemb_sincos_2d h w (arg_hidden_dim a)) (\<lambda>pe. Inr (Some pe))
                  else if arg_posemb a = ''learn''
                  then bind_err (learned_embeddings lib (arg_hidden_dim a) sl) (\<lambda>pe. Inr (Some pe))
                  else Inr None)
                 (\<lambda>pe. bind_err
                    (encoder_init lib (arg_num_layers a) (arg_num_heads a) (arg_hidden_dim a))
                    (\<lambda>enc. bind_err
                       (heads_init lib (arg_hidden_dim a) (arg_representation_size a) (arg_num_classes a))
                       (\<lambda>hs. Inr \<lparr>image_size = arg_image_size a,
                                  patch_size = arg_patch_size a,
                                  hidden_dim = arg_hidden_dim a,
                                  num_classes = arg_num_classes a,
                                  pool_type = arg_pool_type a,
                                  register = r,
                                  reg = rg,
                                  conv_proj = lib_conv_proj lib,
                                  pos_embedding = pe,
                                  encoder = enc,
                                  seq_length = sl,
                                  heads = hs\<rparr>))))))"

text \<open>
  \<^verbatim>\<open>_process_input\<close>: the two shape assertions, then the convolution,
  \<^verbatim>\<open>reshape(n, hidden_dim, n_h * n_w)\<close> (the last two axes are merged) and
  \<^verbatim>\<open>permute(0, 2, 1)\<close> (the last two axes are swapped).
\<close>

definition process_input :: "'px vit \<Rightarrow> 'px image_batch \<Rightarrow> error + mat list" where
  "process_input m x =
     (let h = shape_h x; w = shape_w x; p = patch_size m
      in if h \<noteq> image_size m
         then Inl (AssertionError (''Wrong image height! Expected '' @ str_int (int (image_size m))
                                   @ '' but got '' @ str_int (int h) @ ''!''))
         else if w \<noteq> image_size m
         then Inl (AssertionError (''Wrong image width! Expected '' @ str_int (int (image_size m))
                                   @ '' but got '' @ str_int (int w) @ ''!''))
         else if p = 0 then Inl ZeroDivisionError
         else Inr (map transpose (map (map concat) (conv_proj m x))))"

text \<open>\<^verbatim>\<open>x + self.pos_embedding\<close>, the embedding broadcast over the batch.\<close>

definition add_pos :: "mat list \<Rightarrow> mat \<Rightarrow> mat list" where
  "add_pos x pe = map (\<lambda>toks. map (\<lambda>(t, p). map (\<lambda>(a, b). fadd a b) (zip t p)) (zip toks pe)) x"

text \<open>
  \<^verbatim>\<open>.mean(dim=1)\<close> of one batch element: the mean over the tokens, feature by feature;
  over no tokens it is \<open>0 / 0\<close>, NaN in each of the \<open>hidden_dim\<close> features.
\<close>

definition mean_tokens :: "nat \<Rightarrow> mat \<Rightarrow> vec" where
  "mean_tokens hidden toks =
     (if toks = [] then replicate hidden None
      else map (\<lambda>col. case fsum col of None \<Rightarrow> None | Some s \<Rightarrow> Some (s / real (length toks)))
               (transpose toks))"

text \<open>
  \<^verbatim>\<open>forward\<close> up to the pooled features: patch tokens, positional embedding, register
  tokens in front, encoder, pooling.  \<^verbatim>\<open>x[:, 0]\<close> raises on an empty token axis.
\<close>

definition features :: "'px vit \<Rightarrow> 'px image_batch \<Rightarrow> error + mat" where
  "features m x =
     bind_err (process_input m x)
       (\<lambda>x1. let x2 = (case pos_embedding m of None \<Rightarrow> x1 | Some pe \<Rightarrow> add_pos x1 pe)
             in bind_err
                  (if register m \<noteq> 0
                   then (case reg m of
                           None \<Rightarrow> Inl AttributeError
                         | Some rg \<Rightarrow> Inr (map (\<lambda>toks. rg @ toks) x2))
                   else Inr x2)
                  (\<lambda>x3. let x4 = encoder m x3
                        in if pool_type m = ''tok''
                           then (if [] \<in> set x4 then Inl IndexError else Inr (map hd x4))
                           else Inr (map (\<lambda>toks. mean_tokens (hidden_dim m) (drop (register m) toks)) x4)))"

text \<open>
  The functions of \<^verbatim>\<open>torch.nn.functional\<close> that \<^verbatim>\<open>_loss_fn\<close> calls, for a type \<open>'t\<close>
  of integer label tensors.  Each call returns or raises one of the library's own
  exceptions: \<^verbatim>\<open>F.nll_loss\<close> raises \<^verbatim>\<open>IndexError\<close> for a label that is not a class
  index and \<^verbatim>\<open>ValueError\<close> for a label tensor of the wrong batch size.  The library
  raises no assertion of the model's.
\<close>

datatype lib_error = Lib_IndexError | Lib_ValueError | Lib_RuntimeError

fun raise_lib :: "lib_error \<Rightarrow> error" where
  "raise_lib Lib_IndexError = IndexError"
| "raise_lib Lib_ValueError = ValueError"
| "raise_lib Lib_RuntimeError = RuntimeError"

definition lib_call :: "lib_error + 'a \<Rightarrow> error + 'a" where
  "lib_call r = (case r of Inl e \<Rightarrow> Inl (raise_lib e) | Inr v \<Rightarrow> Inr v)"

record 't functional =
  log_softmax :: "mat \<Rightarrow> lib_error + mat"
  nll_loss :: "mat \<Rightarrow> 't \<Rightarrow> lib_error + fl"

text \<open>
  \<^verbatim>\<open>logprob = F.log_softmax(out, dim=1)
  return lam * F.nll_loss(logprob, target1) + (1.0 - lam) * F.nll_loss(logprob, target2)\<close>

  The left operand of the sum is evaluated first; an exception of a library call leaves
  \<^verbatim>\<open>_loss_fn\<close>.
\<close>

definition loss_fn :: "'t functional \<Rightarrow> mat \<Rightarrow> real \<Rightarrow> 't \<Rightarrow> 't \<Rightarrow> error + fl" where
  "loss_fn F out lam target1 target2 =
     bind_err (lib_call (log_softmax F out))
       (\<lambda>logprob. bind_err (lib_call (nll_loss F logprob target1))
          (\<lambda>a. bind_err (lib_call (nll_loss F logprob target2))
             (\<lambda>b. Inr (fadd (fmul (Some lam) a) (fmul (Some (1 - lam)) b)))))"

text \<open>What \<^verbatim>\<open>forward\<close> returns: the logits, or the pair of the logits and the loss.\<close>

datatype forward_result = Logits mat | LogitsLoss mat fl

definition forward ::
  "'t functional \<Rightarrow> 'px vit \<Rightarrow> 'px image_batch \<Rightarrow> real \<Rightarrow> 't option \<Rightarrow> 't option \<Rightarrow> error + forward_result" where
  "forward F m x lam target1 target2 =
     bind_err (features m x)
       (\<lambda>f. let out = sequential (heads m) f
            in (case target1 of
                  None \<Rightarrow> Inr (Logits out)
                | Some t1 \<Rightarrow>
                    (case target2 of
                       None \<Rightarrow> Inr (Logits out)
                     | Some t2 \<Rightarrow>
                         bind_err (loss_fn F out lam t1 t2) (\<lambda>loss. Inr (LogitsLoss out loss)))))"

text \<open>
  Single-target cross-entropy of logits against labels: the negative log-likelihood of
  the log-softmax.
\<close>

definition cross_entropy :: "'t functional \<Rightarrow> mat \<Rightarrow> 't \<Rightarrow> error + fl" where
  "cross_entropy F out t =
     bind_err (lib_call (log_softmax F out)) (\<lambda>logprob. lib_call (nll_loss F logprob t))"

subsection \<open>Example inputs\<close>

text \<open>
  Small concrete inputs, used where a statement is evaluated.  The example library
  returns the constant tensor \<open>c\<close> from the convolution and has the identity as encoder
  stack; the identity keeps the shape of its input and keeps a NaN a NaN, as the
  encoder of the source does (its blocks add their output to their input, and a layer
  normalisation of a row with a NaN is NaN).  The example loss functions stand for the
  library's: the log-softmax is replaced by the identity and the negative
  log-likelihood by the label itself, with the library's \<^verbatim>\<open>IndexError\<close> for a label
  that is not the index of a class.
\<close>

definition example_args :: "nat \<Rightarrow> nat \<Rightarrow> nat \<Rightarrow> string \<Rightarrow> string \<Rightarrow> nat \<Rightarrow> vit_args" where
  "example_args isz psz hidden pe pool r =
     \<lparr>arg_image_size = isz, arg_patch_size = psz, arg_num_layers = 1, arg_num_heads = 1,
      arg_hidden_dim = hidden, arg_mlp_dim = 2 * hidden, arg_num_classes = 2, arg_posemb = pe,
      arg_representation_size = None, arg_pool_type = pool, arg_register = r\<rparr>"

definition example_library :: "nat \<Rightarrow> fl list list list list \<Rightarrow> unit library" where
  "example_library hidden c =
     \<lparr>lib_conv_proj = (\<lambda>x. c), lib_encoder = (\<lambda>t. t),
      lib_learned_embeddings = (\<lambda>num. replicate num (replicate hidden (Some 1))),
      lib_pre_logits_weight = []\<rparr>"

definition example_batch :: "nat \<Rightarrow> unit image_batch" where
  "example_batch s = \<lparr>shape_n = 1, shape_c = 3, shape_h = s, shape_w = s, pixels = ()\<rparr>"

definition example_functional :: "nat functional" where
  "example_functional =
     \<lparr>log_softmax = (\<lambda>m. Inr m),
      nll_loss = (\<lambda>logprob t. if list_ex (\<lambda>row. length row \<le> t) logprob
                               then Inl Lib_IndexError else Inr (Some (real t)))\<rparr>"

text \<open>
  A batch of one image of one pixel with three channels, and a library whose
  convolution reads it: patch size one, two output features with the weights
  \<open>(1, 0, 0)\<close> and \<open>(0, 1, 0)\<close> and zero bias.
\<close>

definition example_pixel_batch :: "fl list \<Rightarrow> fl list image_batch" where
  "example_pixel_batch px = \<lparr>shape_n = 1, shape_c = 3, shape_h = 1, shape_w = 1, pixels = px\<rparr>"

definition example_pixel_library :: "fl list library" where
  "example_pixel_library =
     \<lparr>lib_conv_proj = (\<lambda>x. [[[[dot (pixels x) [Some 1, Some 0, Some 0]]],
                             [[dot (pixels x) [Some 0, Some 1, Some 0]]]]]),
      lib_encoder = (\<lambda>t. t),
      lib_learned_embeddings = (\<lambda>num. replicate num (replicate 2 (Some 1))),
      lib_pre_logits_weight = []\<rparr>"

section \<open>Properties of the metrics utilities\<close>

subsection \<open>AverageMeter\<close>

text \<open>
  The accumulated fields after a run of updates, from any starting meter, as long as no
  accumulated count is zero on the way.
\<close>

lemma update_all_acc:
  "\<forall>k\<in>{1..length us}. count_v m + sum_list (map snd (take k us)) \<noteq> 0 \<Longrightarrow>
   \<exists>m'. update_all m us = Inr m'
       \<and> sum_v m' = sum_v m + sum_list (map (\<lambda>(v, n). v * n) us)
       \<and> count_v m' = count_v m + sum_list (map snd us)
       \<and> (us \<noteq> [] \<longrightarrow> avg m' = sum_v m' / count_v m')"
proof (induction us arbitrary: m)
  case Nil
  then show ?case by simp
next
  case (Cons u us)
  obtain v n where u: "u = (v, n)" by (cases u)
  from Cons.prems have c1: "count_v m + n \<noteq> 0"
    by (auto simp: u dest!: bspec [where x = 1])
  define m1 where "m1 = m\<lparr>val := v, sum_v := sum_v m + v * n, count_v := count_v m + n,
                         avg := (sum_v m + v * n) / (count_v m + n)\<rparr>"
  have up: "update m v n = Inr m1"
    using c1 by (simp add: update_def Let_def m1_def)
  have "\<forall>k\<in>{1..length us}. count_v m1 + sum_list (map snd (take k us)) \<noteq> 0"
  proof
    fix k assume "k \<in> {1..length us}"
    then have "Suc k \<in> {1..length (u # us)}" by simp
    from Cons.prems [rule_format, OF this]
    show "count_v m1 + sum_list (map snd (take k us)) \<noteq> 0"
      by (simp add: u m1_def add.assoc)
  qed
  from Cons.IH [OF this] obtain m' where
    r: "update_all m1 us = Inr m'"
       "sum_v m' = sum_v m1 + sum_list (map (\<lambda>(v, n). v * n) us)"
       "count_v m' = count_v m1 + sum_list (map snd us)"
       "us \<noteq> [] \<longrightarrow> avg m' = sum_v m' / count_v m'"
    by blast
  show ?case
  proof (cases "us = []")
    case True
    then show ?thesis using up by (simp add: u m1_def)
  next
    case False
    then show ?thesis using up r by (simp add: u m1_def add.assoc)
  qed
qed

text \<open>
  Claim C7, as stated: after a reset, every finite sequence of updates with positive
  total weight leaves the average \<open>sum (value * weight) / sum weight\<close>.  It fails when an
  accumulated weight on the way is zero: the updates \<open>(5, 0)\<close>, \<open>(5, 1)\<close> have total weight
  \<open>1\<close>, and the first of them raises \<^verbatim>\<open>ZeroDivisionError\<close>.
\<close>

theorem AverageMeter_average_counterexample:
  "0 < sum_list (map snd [(5 :: rat, 0 :: rat), (5, 1)])
   \<and> update_all (reset (AverageMeter_init ''Loss'' '':.4e'' Summary_AVERAGE)) [(5, 0), (5, 1)]
       = Inl ZeroDivisionError"
  by (simp add: update_def AverageMeter_init_def reset_def)

text \<open>
  Claim C7, amended: after a reset, a non-empty sequence of updates in which every
  accumulated weight (the sum of the weights of each non-empty initial segment) is
  non-zero, as it is when all weights are positive, returns a meter whose average is
  \<open>sum (value * weight) / sum weight\<close>; \<^verbatim>\<open>reset\<close> sets the current value, the sum, the
  count and the average to zero; \<^verbatim>\<open>summary\<close> of a meter of kind \<^verbatim>\<open>Summary.NONE\<close> is the
  empty string.
\<close>

theorem AverageMeter_average:
  assumes "us \<noteq> []"
    and "\<forall>k\<in>{1..length us}. sum_list (map snd (take k us)) \<noteq> 0"
  shows "(\<exists>m'. update_all (reset m) us = Inr m'
              \<and> avg m' = sum_list (map (\<lambda>(v, n). v * n) us) / sum_list (map snd us))
         \<and> val (reset m) = 0 \<and> sum_v (reset m) = 0 \<and> count_v (reset m) = 0 \<and> avg (reset m) = 0
         \<and> summary pf (m\<lparr>summary_type := Summary_NONE\<rparr>) = []"
proof -
  have "\<forall>k\<in>{1..length us}. count_v (reset m) + sum_list (map snd (take k us)) \<noteq> 0"
    using assms(2) by (simp add: reset_def)
  from update_all_acc [OF this] obtain m' where
    "update_all (reset m) us = Inr m'"
    "sum_v m' = sum_v (reset m) + sum_list (map (\<lambda>(v, n). v * n) us)"
    "count_v m' = count_v (reset m) + sum_list (map snd us)"
    "us \<noteq> [] \<longrightarrow> avg m' = sum_v m' / count_v m'"
    by blast
  with assms(1) have "update_all (reset m) us = Inr m'
      \<and> avg m' = sum_list (map (\<lambda>(v, n). v * n) us) / sum_list (map snd us)"
    by (simp add: reset_def)
  then show ?thesis
    by (auto simp: reset_def summary_def)
qed

theorem AverageMeter_average_witness:
  "[(2 :: rat, 1 :: rat), (4, 3)] \<noteq> []
   \<and> sum_list (map snd (take 1 [(2 :: rat, 1 :: rat), (4, 3)])) \<noteq> 0
   \<and> sum_list (map snd (take 2 [(2 :: rat, 1 :: rat), (4, 3)])) \<noteq> 0
   \<and> (\<exists>m'. update_all (reset (AverageMeter_init ''Acc@1'' '':6.2f'' Summary_AVERAGE)) [(2, 1), (4, 3)]
              = Inr m' \<and> avg m' = 7 / 2)"
proof -
  have ne: "[(2 :: rat, 1 :: rat), (4, 3)] \<noteq> []" by simp
  have pre: "\<forall>k\<in>{1..length [(2 :: rat, 1 :: rat), (4, 3)]}.
               sum_list (map snd (take k [(2 :: rat, 1 :: rat), (4, 3)])) \<noteq> 0"
  proof
    fix k :: nat assume "k \<in> {1..length [(2 :: rat, 1 :: rat), (4, 3)]}"
    then have "k = 1 \<or> k = 2" by auto
    then show "sum_list (map snd (take k [(2 :: rat, 1 :: rat), (4, 3)])) \<noteq> 0"
      by auto
  qed
  from AverageMeter_average [OF ne pre, of "AverageMeter_init ''Acc@1'' '':6.2f'' Summary_AVERAGE"]
  have "\<exists>m'. update_all (reset (AverageMeter_init ''Acc@1'' '':6.2f'' Summary_AVERAGE)) [(2, 1), (4, 3)]
              = Inr m' \<and> avg m' = 7 / 2"
    by simp
  then show ?thesis by simp
qed

text \<open>
  Claim C10: \<^verbatim>\<open>update\<close> divides by the accumulated count without a guard.  It raises
  \<^verbatim>\<open>ZeroDivisionError\<close> exactly when the count after adding the weight is zero, and it
  returns exactly when that count is non-zero; the first update after a reset or after
  construction with weight \<open>0\<close> raises.
\<close>

theorem AverageMeter_update_zero_division:
  "(update m v n = Inl ZeroDivisionError) = (count_v m + n = 0)
   \<and> (\<exists>m'. update m v n = Inr m') = (count_v m + n \<noteq> 0)
   \<and> update (reset m) v 0 = Inl ZeroDivisionError
   \<and> update (AverageMeter_init nm f st) v 0 = Inl ZeroDivisionError"
  by (simp add: update_def Let_def reset_def AverageMeter_init_def)

subsection \<open>ProgressMeter\<close>

lemma join_cons: "join sep (e # es) = e @ concat (map (\<lambda>x. sep @ x) es)"
  by (induction es arbitrary: e) auto

lemma display_text:
  "display pf (ProgressMeter_init num_batches ms pre) step =
     pre @ ''['' @ replicate (length (str_int num_batches) - length (str_int step)) CHR '' ''
         @ str_int step @ ''/'' @ str_int num_batches @ '']''
         @ concat (map (\<lambda>m. CHR 0x09 # str_meter pf m) ms) @ [CHR 0x0A]"
  by (simp add: display_def ProgressMeter_init_def get_batch_fmtstr_def format_int_def
      format_d_def join_cons Let_def comp_def)

lemma str_int_5: "str_int 5 = ''5''"
  by (simp add: str_int_def digit_def)

lemma str_int_100: "str_int 100 = ''100''"
  by (simp add: str_int_def digit_def)

text \<open>
  Claim C8, as stated: the step number is zero-padded to the digit width of the total.
  With total \<open>100\<close>, step \<open>5\<close>, no meters and the empty prefix the line printed is
  \<^verbatim>\<open>[  5/100]\<close>, not \<^verbatim>\<open>[005/100]\<close>: the field \<^verbatim>\<open>{:3d}\<close> pads with spaces.
\<close>

theorem ProgressMeter_display_counterexample:
  "display (\<lambda>f v. []) (ProgressMeter_init 100 [] []) 5 = ''[  5/100]'' @ [CHR 0x0A]
   \<and> display (\<lambda>f v. []) (ProgressMeter_init 100 [] []) 5 \<noteq> ''[005/100]'' @ [CHR 0x0A]"
  by (simp add: display_text str_int_5 str_int_100)

text \<open>
  Claim C8, amended: for every total and every step, \<^verbatim>\<open>display(step)\<close> prints one line:
  the prefix, then \<^verbatim>\<open>[step/total]\<close> in which the decimal text of the step is padded on
  the left with spaces to the length of the decimal text of the total (and is not
  shortened when it is longer), then the textual rendering of each meter, each preceded
  by a tab.
\<close>

theorem ProgressMeter_display:
  "display pf (ProgressMeter_init num_batches ms pre) step =
     pre @ ''['' @ replicate (length (str_int num_batches) - length (str_int step)) CHR '' ''
         @ str_int step @ ''/'' @ str_int num_batches @ '']''
         @ concat (map (\<lambda>m. CHR 0x09 # str_meter pf m) ms) @ [CHR 0x0A]"
  by (rule display_text)

section \<open>Properties of the training driver\<close>

subsection \<open>Step-count derivation\<close>

lemma round_steps_ok:
  "b \<noteq> 0 \<Longrightarrow>
   round_steps fl n b es = Inr (map (\<lambda>epoch. py_round (fl (of_int (n * epoch) / of_int b))) es)"
  by (induction es) (simp_all add: true_div_def)

lemma derive_steps_ok:
  "b \<noteq> 0 \<Longrightarrow>
   derive_steps fl n epochs b log_epoch =
     Inr (py_round (fl (of_int (n * epochs) / of_int b)),
          insert (py_round (fl (of_int (n * epochs) / of_int b)))
            ((\<lambda>epoch. py_round (fl (of_int (n * epoch) / of_int b))) ` set log_epoch))"
  by (simp add: derive_steps_def true_div_def round_steps_ok Let_def)

lemma py_round_example: "py_round (125 / 16) = 8"
proof -
  have f: "\<lfloor>125 / 16 :: rat\<rfloor> = 7" by (rule floor_unique) simp_all
  show ?thesis unfolding py_round_def Let_def f by simp
qed

text \<open>Ties go to the even neighbour.\<close>

lemma py_round_half: "py_round (5 / 2) = 2 \<and> py_round (7 / 2) = 4"
proof -
  have f: "\<lfloor>5 / 2 :: rat\<rfloor> = 2" "\<lfloor>7 / 2 :: rat\<rfloor> = 3" by (rule floor_unique, simp, simp)+
  show ?thesis unfolding py_round_def Let_def f by simp
qed

lemma derive_steps_example:
  assumes "fl (125 / 16) = 125 / 16"
  shows "derive_steps fl 1000 2 256 log_epoch
           = Inr (8, insert 8 ((\<lambda>epoch. py_round (fl (of_int (1000 * epoch) / of_int 256))) ` set log_epoch))"
proof -
  have q: "(of_int (1000 * 2) / of_int 256 :: rat) = 125 / 16" by simp
  have r: "py_round (fl (of_int (1000 * 2) / of_int 256)) = 8"
    unfolding q assms by (rule py_round_example)
  have "(256 :: int) \<noteq> 0" by simp
  from derive_steps_ok [OF this, of fl 1000 2 log_epoch] show ?thesis
    unfolding r .
qed

text \<open>
  Claim C5: for a dataset of size \<open>n\<close>, \<open>epochs\<close> epochs and a non-zero total batch size
  the driver derives \<open>total_steps = round (n * epochs / total_batch_size)\<close>, and the set
  of specified steps contains \<open>total_steps\<close> whatever the list of log epochs is.  For
  \<open>n = 1000\<close>, two epochs and batch size \<open>256\<close> the quotient \<open>7.8125\<close> is a double, and
  \<open>total_steps\<close> is \<open>8\<close>.
\<close>

theorem derive_steps_total:
  assumes "total_batch_size \<noteq> 0"
  shows "(\<exists>S. derive_steps fl n epochs total_batch_size log_epoch
               = Inr (py_round (fl (of_int (n * epochs) / of_int total_batch_size)), S)
             \<and> py_round (fl (of_int (n * epochs) / of_int total_batch_size)) \<in> S)
         \<and> (fl (125 / 16) = 125 / 16 \<longrightarrow>
              (\<exists>S. derive_steps fl 1000 2 256 log_epoch = Inr (8, S) \<and> 8 \<in> S))"
proof (intro conjI impI)
  show "\<exists>S. derive_steps fl n epochs total_batch_size log_epoch
               = Inr (py_round (fl (of_int (n * epochs) / of_int total_batch_size)), S)
             \<and> py_round (fl (of_int (n * epochs) / of_int total_batch_size)) \<in> S"
    using assms by (simp add: derive_steps_ok)
next
  assume "fl (125 / 16) = 125 / 16"
  then have "derive_steps fl 1000 2 256 log_epoch
      = Inr (8, insert 8 ((\<lambda>epoch. py_round (fl (of_int (1000 * epoch) / of_int 256))) ` set log_epoch))"
    by (rule derive_steps_example)
  then show "\<exists>S. derive_steps fl 1000 2 256 log_epoch = Inr (8, S) \<and> 8 \<in> S"
    by blast
qed

theorem derive_steps_total_witness:
  "(256 :: int) \<noteq> 0
   \<and> (\<exists>S. derive_steps (\<lambda>q. q) 1000 2 256 [1, 2] = Inr (8, S) \<and> 8 \<in> S)"
  using derive_steps_total [of 256 "\<lambda>q. q" 1000 2 "[1, 2]"] by simp

subsection \<open>Best accuracy after a resume\<close>

text \<open>
  The outcome of \<^verbatim>\<open>train\<close> does not depend on the best accuracy that the resume block
  stored in the module-level variable.
\<close>

lemma main_worker_ignores_restored_best:
  "snd (main_worker g (Some c) validate log_steps specified start_step total_steps)
     = snd (main_worker g None validate log_steps specified (ckpt_step c) total_steps)"
  by (simp add: main_worker_def resume_def train_def)

text \<open>
  Claim C6 says that the best accuracy restored from the checkpoint is the value the
  training loop compares against.  Resuming at step \<open>10\<close> from a checkpoint with best
  accuracy \<open>80\<close>, with one validation at step \<open>20\<close> that returns \<open>50\<close>: the module-level
  variable holds \<open>80\<close>, but \<^verbatim>\<open>train\<close> compares against its own variable, which starts at
  \<open>0\<close>, so the checkpoint is saved as the best one and records \<open>50\<close> as the best accuracy.
\<close>

theorem train_best_acc1_restarts_from_zero:
  "main_worker module_globals (Some \<lparr>ckpt_step = 10, ckpt_best_acc1 = 80\<rparr>) (\<lambda>step. 50) 20 {} 0 20
     = (\<lparr>best_acc1 = 80\<rparr>,
        Inr [\<lparr>saved_step = 20, saved_best_acc1 = 50, saved_is_best = True\<rparr>])"
  by (simp add: main_worker_def resume_def train_def module_globals_def upto.simps)

section \<open>Properties of the model\<close>

subsection \<open>What the constructor establishes\<close>

lemma init_fields:
  assumes "SimpleVisionTransformer_init a lib = Inr m"
  shows "patch_size m \<noteq> 0"
    and "encoder m = lib_encoder lib"
    and "register m = arg_register a + (if arg_pool_type a = ''tok'' then 1 else 0)"
    and "pool_type m = arg_pool_type a"
    and "num_classes m = arg_num_classes a"
    and "register m = 0 \<or> (\<exists>rg. reg m = Some rg \<and>
           (rg = [zeros (arg_hidden_dim a)] \<or> rg = lib_learned_embeddings lib (register m) \<and> 1 < register m))"
    and "\<exists>pre k. heads m = pre @ [(''head'', Linear (replicate (num_classes m) (zeros k)) (zeros (num_classes m)))]"
  using assms
  by (auto simp: SimpleVisionTransformer_init_def bind_err_def Let_def learned_embeddings_def
      encoder_init_def heads_init_def split: if_splits sum.splits option.splits)

lemma example_init_returns:
  "\<exists>m. SimpleVisionTransformer_init (example_args 1 1 2 ''none'' pool r) (example_library 2 c) = Inr m"
  by (simp add: SimpleVisionTransformer_init_def bind_err_def Let_def encoder_init_def
      heads_init_def learned_embeddings_def example_args_def example_library_def)

text \<open>
  Claim C4: a model constructed with pooling \<^verbatim>\<open>"tok"\<close> and explicit register count \<open>r\<close>
  has the effective register count \<open>r + 1\<close>, one constructed with \<^verbatim>\<open>"gap"\<close> has \<open>r\<close>, and
  \<open>r = 0\<close> with \<^verbatim>\<open>"tok"\<close> gives \<open>1\<close>.
\<close>

theorem register_effective_count:
  assumes "SimpleVisionTransformer_init a lib = Inr m"
  shows "(arg_pool_type a = ''tok'' \<longrightarrow> register m = arg_register a + 1)
         \<and> (arg_pool_type a = ''gap'' \<longrightarrow> register m = arg_register a)
         \<and> (arg_pool_type a = ''tok'' \<and> arg_register a = 0 \<longrightarrow> register m = 1)"
  using init_fields(3) [OF assms] by simp

theorem register_effective_count_witness:
  "(\<exists>m. SimpleVisionTransformer_init (example_args 1 1 2 ''none'' ''tok'' 0) (example_library 2 [])
          = Inr m \<and> register m = 1)
   \<and> (\<exists>m. SimpleVisionTransformer_init (example_args 1 1 2 ''none'' ''gap'' 3) (example_library 2 [])
          = Inr m \<and> register m = 3)"
proof -
  obtain m1 where
    m1: "SimpleVisionTransformer_init (example_args 1 1 2 ''none'' ''tok'' 0) (example_library 2 []) = Inr m1"
    using example_init_returns by blast
  obtain m2 where
    m2: "SimpleVisionTransformer_init (example_args 1 1 2 ''none'' ''gap'' 3) (example_library 2 []) = Inr m2"
    using example_init_returns by blast
  from register_effective_count [OF m1] have "register m1 = 1"
    by (simp add: example_args_def)
  moreover from register_effective_count [OF m2] have "register m2 = 3"
    by (simp add: example_args_def)
  ultimately show ?thesis using m1 m2 by simp
qed

subsection \<open>Assertions\<close>

text \<open>
  Claim C9, as stated: the model fails with an assertion exactly when the image size
  is not a multiple of the patch size (at construction) or the input's height or width
  differs from the image size (in \<^verbatim>\<open>forward\<close>).  Construction with image size \<open>32\<close>,
  patch size \<open>16\<close>, the default \<^verbatim>\<open>"sincos2d"\<close> embedding and hidden dimension \<open>6\<close> meets
  the precondition and still fails with the assertion of \<^verbatim>\<open>posemb_sincos_2d\<close>.
\<close>

theorem assertion_cases_counterexample:
  "(32 :: nat) mod 16 = 0
   \<and> SimpleVisionTransformer_init (example_args 32 16 6 ''sincos2d'' ''gap'' 0) (example_library 6 [])
       = Inl (AssertionError ''feature dimension must be multiple of 4 for sincos emb'')"
  by (simp add: SimpleVisionTransformer_init_def bind_err_def Let_def posemb_sincos_2d_def
      example_args_def)

text \<open>
  The exceptions of the library's loss functions are not assertions, so \<^verbatim>\<open>forward\<close>
  fails with an assertion exactly when its network part does.
\<close>

lemma raise_lib_no_assertion: "raise_lib e \<noteq> AssertionError msg"
  by (cases e) simp_all

lemma loss_fn_no_assertion: "loss_fn F out lam t1 t2 \<noteq> Inl (AssertionError msg)"
  by (auto simp: loss_fn_def bind_err_def lib_call_def raise_lib_no_assertion split: sum.splits)

lemma features_assertion:
  "(\<exists>msg. features m x = Inl (AssertionError msg))
     = (\<not> (shape_h x = image_size m \<and> shape_w x = image_size m))"
  by (auto simp: features_def process_input_def bind_err_def Let_def
      split: if_splits sum.splits option.splits)

lemma forward_assertion:
  "(\<exists>msg. forward F m x lam t1 t2 = Inl (AssertionError msg))
     = (\<exists>msg. features m x = Inl (AssertionError msg))"
proof (cases "features m x")
  case (Inl e)
  then show ?thesis by (simp add: forward_def bind_err_def)
next
  case (Inr f)
  then show ?thesis
    by (auto simp: forward_def bind_err_def Let_def loss_fn_no_assertion
        split: option.splits sum.splits)
qed

text \<open>
  Claim C9, amended: construction fails with an assertion exactly when the patch size
  is non-zero and either the image size is not a multiple of the patch size or the
  positional embedding is \<^verbatim>\<open>"sincos2d"\<close> and the hidden dimension is not a multiple of
  four; \<^verbatim>\<open>_process_input\<close>, and with it \<^verbatim>\<open>forward\<close>, fails with an assertion exactly when
  the input's height or width differs from the image size.
\<close>

theorem assertion_cases:
  "((\<exists>msg. SimpleVisionTransformer_init a lib = Inl (AssertionError msg))
      = (arg_patch_size a \<noteq> 0
         \<and> (0 < arg_image_size a mod arg_patch_size a
            \<or> (arg_posemb a = ''sincos2d'' \<and> 0 < arg_hidden_dim a mod 4))))
   \<and> ((\<exists>msg. process_input m x = Inl (AssertionError msg))
      = (\<not> (shape_h x = image_size m \<and> shape_w x = image_size m)))
   \<and> ((\<exists>msg. forward F m x lam t1 t2 = Inl (AssertionError msg))
      = (\<not> (shape_h x = image_size m \<and> shape_w x = image_size m)))"
proof (intro conjI)
  show "(\<exists>msg. SimpleVisionTransformer_init a lib = Inl (AssertionError msg))
      = (arg_patch_size a \<noteq> 0
         \<and> (0 < arg_image_size a mod arg_patch_size a
            \<or> (arg_posemb a = ''sincos2d'' \<and> 0 < arg_hidden_dim a mod 4)))"
    by (auto simp: SimpleVisionTransformer_init_def bind_err_def Let_def posemb_sincos_2d_def
        learned_embeddings_def encoder_init_def heads_init_def
        split: if_splits sum.splits option.splits)
next
  show "(\<exists>msg. process_input m x = Inl (AssertionError msg))
      = (\<not> (shape_h x = image_size m \<and> shape_w x = image_size m))"
    by (auto simp: process_input_def Let_def)
next
  show "(\<exists>msg. forward F m x lam t1 t2 = Inl (AssertionError msg))
      = (\<not> (shape_h x = image_size m \<and> shape_w x = image_size m))"
    by (simp add: forward_assertion features_assertion)
qed

subsection \<open>Positional embedding\<close>

lemma length_concat_blocks:
  "\<forall>b\<in>set bs. length b = w \<Longrightarrow> length (concat bs) = length bs * w"
  by (induction bs) simp_all

lemma nth_concat_blocks:
  "\<forall>b\<in>set bs. length b = w \<Longrightarrow> i < length bs \<Longrightarrow> j < w \<Longrightarrow>
   concat bs ! (i * w + j) = bs ! i ! j"
proof (induction bs arbitrary: i)
  case Nil
  then show ?case by simp
next
  case (Cons b bs)
  show ?case
  proof (cases i)
    case 0
    with Cons.prems show ?thesis by (simp add: nth_append)
  next
    case (Suc i')
    with Cons.prems have "concat bs ! (i' * w + j) = bs ! i' ! j"
      by (intro Cons.IH) simp_all
    with Cons.prems Suc show ?thesis
      by (simp add: nth_append add.assoc)
  qed
qed

lemma length_meshgrid_y: "length (meshgrid_y h w) = h * w"
  unfolding meshgrid_y_def by (subst length_concat_blocks [where w = w]) simp_all

lemma length_meshgrid_x: "length (meshgrid_x h w) = h * w"
  unfolding meshgrid_x_def by (subst length_concat_blocks [where w = w]) simp_all

lemma nth_meshgrid_y: "y < h \<Longrightarrow> x < w \<Longrightarrow> meshgrid_y h w ! (y * w + x) = y"
  unfolding meshgrid_y_def by (subst nth_concat_blocks [where w = w]) simp_all

lemma nth_meshgrid_x: "y < h \<Longrightarrow> x < w \<Longrightarrow> meshgrid_x h w ! (y * w + x) = x"
  unfolding meshgrid_x_def by (subst nth_concat_blocks [where w = w]) simp_all

lemma cell_index: "y < h \<Longrightarrow> x < w \<Longrightarrow> y * w + x < h * (w :: nat)"
proof -
  assume a: "y < h" "x < w"
  then have "y * w + x < y * w + w" by simp
  also have "\<dots> = Suc y * w" by simp
  also from a have "\<dots> \<le> h * w" by (intro mult_le_mono1) simp
  finally show ?thesis .
qed

lemma omega_regular:
  "d div 4 \<noteq> 1 \<Longrightarrow>
   omega d = map (\<lambda>k. Some (1 / (10000 powr (real k / (real (d div 4) - 1))))) [0..<d div 4]"
  by (auto simp: omega_def omega_exponent_def tdiv_def)

lemma omega_degenerate: "d div 4 = 1 \<Longrightarrow> omega d = [None]"
  by (simp add: omega_def omega_exponent_def tdiv_def)

lemma length_omega: "length (omega d) = d div 4"
  by (simp add: omega_def omega_exponent_def)

lemma posemb_length:
  "d mod 4 = 0 \<Longrightarrow> \<exists>pe. posemb_sincos_2d h w d = Inr pe \<and> length pe = h * w"
  by (simp add: posemb_sincos_2d_def Let_def outer_def length_meshgrid_x length_meshgrid_y)

lemma posemb_row:
  assumes "d mod 4 = 0" "y < h" "x < w"
  shows "\<exists>pe. posemb_sincos_2d h w d = Inr pe
     \<and> pe ! (y * w + x) =
         map (map_option sin) (map (\<lambda>e. fmul (Some (real x)) e) (omega d))
         @ map (map_option cos) (map (\<lambda>e. fmul (Some (real x)) e) (omega d))
         @ map (map_option sin) (map (\<lambda>e. fmul (Some (real y)) e) (omega d))
         @ map (map_option cos) (map (\<lambda>e. fmul (Some (real y)) e) (omega d))"
  using assms cell_index [OF assms(2,3)]
  by (simp add: posemb_sincos_2d_def Let_def outer_def length_meshgrid_x length_meshgrid_y
      nth_meshgrid_x nth_meshgrid_y)

lemma posemb_degenerate: "posemb_sincos_2d 1 1 4 = Inr [[None, None, None, None]]"
  by (simp add: posemb_sincos_2d_def Let_def outer_def meshgrid_x_def meshgrid_y_def
      omega_def omega_exponent_def tdiv_def fmul_def)

text \<open>
  Claim C2, as stated: for every embedding dimension divisible by four the row of a
  cell consists of sines and cosines of the cell's coordinates times \<open>omega\<close>.  For
  dimension \<open>4\<close>, which the assertion of the function accepts, there is one frequency
  and the function divides its numerator \<open>0\<close> by \<open>4 // 4 - 1 = 0\<close> without a guard: the
  row of the cell \<open>(0, 0)\<close> of a one-cell grid is NaN in all four places, where every
  real \<open>omega\<close> would give \<open>sin 0 = 0\<close> and \<open>cos 0 = 1\<close>.
\<close>

theorem posemb_sincos_2d_rows_counterexample:
  "(4 :: nat) mod 4 = 0 \<and> posemb_sincos_2d 1 1 4 = Inr [[None, None, None, None]]"
  using posemb_degenerate by simp

text \<open>
  Claim C2, amended: \<^verbatim>\<open>posemb_sincos_2d\<close> is a function of \<open>h\<close>, \<open>w\<close> and the dimension
  alone (nothing random enters it); for a dimension \<open>d\<close> divisible by four it returns
  \<open>h * w\<close> rows of length \<open>d\<close>; for \<open>d \<noteq> 4\<close> the row of the cell in row \<open>y\<close> and column \<open>x\<close>,
  at index \<open>y * w + x\<close>, is \<open>sin (x * omega)\<close>, \<open>cos (x * omega)\<close>, \<open>sin (y * omega)\<close>,
  \<open>cos (y * omega)\<close> in this order, each of length \<open>d / 4\<close>, with
  \<open>omega k = 1 / 10000 ^ (k / (d / 4 - 1))\<close>.  Nothing is said of the entries for \<open>d = 4\<close>.
\<close>

theorem posemb_sincos_2d_rows:
  assumes "d mod 4 = 0"
  shows "\<exists>pe. posemb_sincos_2d h w d = Inr pe \<and> length pe = h * w
     \<and> (\<forall>y<h. \<forall>x<w.
          length (pe ! (y * w + x)) = d
          \<and> (d \<noteq> 4 \<longrightarrow> pe ! (y * w + x) =
               map (\<lambda>k. Some (sin (real x * (1 / (10000 powr (real k / (real (d div 4) - 1))))))) [0..<d div 4]
             @ map (\<lambda>k. Some (cos (real x * (1 / (10000 powr (real k / (real (d div 4) - 1))))))) [0..<d div 4]
             @ map (\<lambda>k. Some (sin (real y * (1 / (10000 powr (real k / (real (d div 4) - 1))))))) [0..<d div 4]
             @ map (\<lambda>k. Some (cos (real y * (1 / (10000 powr (real k / (real (d div 4) - 1))))))) [0..<d div 4]))"
proof -
  from posemb_length [OF assms] obtain pe where
    pe: "posemb_sincos_2d h w d = Inr pe" "length pe = h * w" by blast
  have d4: "4 * (d div 4) = d" using assms by presburger
  have "length (pe ! (y * w + x)) = d
      \<and> (d \<noteq> 4 \<longrightarrow> pe ! (y * w + x) =
               map (\<lambda>k. Some (sin (real x * (1 / (10000 powr (real k / (real (d div 4) - 1))))))) [0..<d div 4]
             @ map (\<lambda>k. Some (cos (real x * (1 / (10000 powr (real k / (real (d div 4) - 1))))))) [0..<d div 4]
             @ map (\<lambda>k. Some (sin (real y * (1 / (10000 powr (real k / (real (d div 4) - 1))))))) [0..<d div 4]
             @ map (\<lambda>k. Some (cos (real y * (1 / (10000 powr (real k / (real (d div 4) - 1))))))) [0..<d div 4])"
    if yx: "y < h" "x < w" for y x
  proof -
    from posemb_row [OF assms yx] pe have row: "pe ! (y * w + x) =
         map (map_option sin) (map (\<lambda>e. fmul (Some (real x)) e) (omega d))
         @ map (map_option cos) (map (\<lambda>e. fmul (Some (real x)) e) (omega d))
         @ map (map_option sin) (map (\<lambda>e. fmul (Some (real y)) e) (omega d))
         @ map (map_option cos) (map (\<lambda>e. fmul (Some (real y)) e) (omega d))"
      by simp
    have len: "length (pe ! (y * w + x)) = d"
      unfolding row using d4 by (simp add: length_omega)
    show ?thesis
    proof (cases "d = 4")
      case True
      with len show ?thesis by simp
    next
      case False
      with assms have "d div 4 \<noteq> 1" by presburger
      from omega_regular [OF this] len row False show ?thesis
        by (simp add: fmul_def comp_def)
    qed
  qed
  with pe show ?thesis by blast
qed

theorem posemb_sincos_2d_rows_witness:
  "(8 :: nat) mod 4 = 0 \<and> (8 :: nat) \<noteq> 4
   \<and> (\<exists>pe. posemb_sincos_2d 1 2 8 = Inr pe \<and> length pe = 2 \<and> length (pe ! 1) = 8
          \<and> pe ! 1 = [Some (sin 1), Some (sin (1 / 10000)), Some (cos 1), Some (cos (1 / 10000)),
                      Some 0, Some 0, Some 1, Some 1])"
proof -
  have h8: "(8 :: nat) mod 4 = 0" by simp
  from posemb_sincos_2d_rows [OF h8, of 1 2] obtain pe where
    pe: "posemb_sincos_2d 1 2 8 = Inr pe" "length pe = 1 * 2"
    and rows: "\<forall>y<1. \<forall>x<2.
          length (pe ! (y * 2 + x)) = 8
          \<and> ((8 :: nat) \<noteq> 4 \<longrightarrow> pe ! (y * 2 + x) =
               map (\<lambda>k. Some (sin (real x * (1 / (10000 powr (real k / (real (8 div 4) - 1))))))) [0..<8 div 4]
             @ map (\<lambda>k. Some (cos (real x * (1 / (10000 powr (real k / (real (8 div 4) - 1))))))) [0..<8 div 4]
             @ map (\<lambda>k. Some (sin (real y * (1 / (10000 powr (real k / (real (8 div 4) - 1))))))) [0..<8 div 4]
             @ map (\<lambda>k. Some (cos (real y * (1 / (10000 powr (real k / (real (8 div 4) - 1))))))) [0..<8 div 4])"
    by blast
  have u: "[0..<2] = [0, 1]" by (simp add: upt_rec)
  from rows [rule_format, of 0 1]
  have r1: "length (pe ! 1) = 8"
    "pe ! 1 = [Some (sin 1), Some (sin (1 / 10000)), Some (cos 1), Some (cos (1 / 10000)),
                      Some 0, Some 0, Some 1, Some 1]"
    by (simp_all add: u)
  with pe show ?thesis by simp
qed

subsection \<open>Forward pass\<close>

text \<open>
  The network part of \<^verbatim>\<open>forward\<close> returns for every constructed model and every batch
  of the configured height and width, provided the library's encoder keeps the number
  of tokens of every batch element and the learned embeddings have the requested
  number of rows.
\<close>

lemma features_returns:
  assumes init: "SimpleVisionTransformer_init a lib = Inr m"
    and shape: "shape_h x = image_size m" "shape_w x = image_size m"
    and enc: "\<forall>ts. map length (lib_encoder lib ts) = map length ts"
    and emb: "\<forall>k. length (lib_learned_embeddings lib k) = k"
  shows "\<exists>f. features m x = Inr f"
proof -
  note flds = init_fields [OF init]
  obtain x1 where x1: "process_input m x = Inr x1"
    using shape flds(1) by (simp add: process_input_def Let_def)
  define x2 where "x2 = (case pos_embedding m of None \<Rightarrow> x1 | Some pe \<Rightarrow> add_pos x1 pe)"
  show ?thesis
  proof (cases "register m = 0")
    case True
    then have "pool_type m \<noteq> ''tok''" using flds(3,4) by (auto split: if_splits)
    with True x1 show ?thesis
      by (simp add: features_def bind_err_def Let_def)
  next
    case False
    with flds(6) obtain rg where rg: "reg m = Some rg"
      and rgs: "rg = [zeros (arg_hidden_dim a)]
                \<or> rg = lib_learned_embeddings lib (register m) \<and> 1 < register m"
      by blast
    have ne: "rg \<noteq> []"
    proof
      assume e: "rg = []"
      with rgs have "rg = lib_learned_embeddings lib (register m)" "1 < register m" by auto
      with emb have "length rg = register m" by simp
      with e \<open>1 < register m\<close> show False by simp
    qed
    have "map length (encoder m (map (\<lambda>toks. rg @ toks) x2)) = map length (map (\<lambda>toks. rg @ toks) x2)"
      using enc flds(2) by simp
    then have "0 \<notin> set (map length (encoder m (map (\<lambda>toks. rg @ toks) x2)))"
      using ne by auto
    then have "[] \<notin> set (encoder m (map (\<lambda>toks. rg @ toks) x2))"
      by force
    with False x1 rg show ?thesis
      by (simp add: features_def bind_err_def Let_def x2_def)
  qed
qed

lemma forward_of_features:
  "features m x = Inr f \<Longrightarrow>
   forward F m x lam t1 t2 =
     (case t1 of None \<Rightarrow> Inr (Logits (sequential (heads m) f))
      | Some a \<Rightarrow> (case t2 of None \<Rightarrow> Inr (Logits (sequential (heads m) f))
                  | Some b \<Rightarrow> bind_err (loss_fn F (sequential (heads m) f) lam a b)
                                (\<lambda>loss. Inr (LogitsLoss (sequential (heads m) f) loss))))"
  by (simp add: forward_def bind_err_def Let_def)

lemma fmul_one_zero: "fadd (fmul (Some 1) a) (fmul (Some 0) a) = a"
  by (cases a) (simp_all add: fadd_def fmul_def)

text \<open>The loss in terms of the results of the three library calls.\<close>

lemma loss_fn_returns:
  "log_softmax F out = Inr lp \<Longrightarrow> nll_loss F lp t1 = Inr a \<Longrightarrow> nll_loss F lp t2 = Inr b \<Longrightarrow>
   loss_fn F out lam t1 t2 = Inr (fadd (fmul (Some lam) a) (fmul (Some (1 - lam)) b))"
  by (simp add: loss_fn_def bind_err_def lib_call_def)

lemma loss_fn_raises:
  "log_softmax F out = Inl e \<Longrightarrow> loss_fn F out lam t1 t2 = Inl (raise_lib e)"
  "log_softmax F out = Inr lp \<Longrightarrow> nll_loss F lp t1 = Inl e \<Longrightarrow>
   loss_fn F out lam t1 t2 = Inl (raise_lib e)"
  "log_softmax F out = Inr lp \<Longrightarrow> nll_loss F lp t1 = Inr a \<Longrightarrow> nll_loss F lp t2 = Inl e \<Longrightarrow>
   loss_fn F out lam t1 t2 = Inl (raise_lib e)"
  by (simp_all add: loss_fn_def bind_err_def lib_call_def)

lemma loss_fn_cross_entropy:
  "cross_entropy F out t = Inr c \<Longrightarrow> loss_fn F out 1 t t = Inr c"
  by (auto simp: cross_entropy_def loss_fn_def bind_err_def lib_call_def fmul_one_zero
      split: sum.splits)

text \<open>The example models, evaluated.\<close>

lemma transpose_column: "transpose [[a], [b]] = [[a, b]]"
  by (simp add: transpose.simps)

lemma transpose_row: "transpose [[a, b]] = [[a], [b]]"
  by (simp add: transpose.simps)

lemma replicate_2: "replicate 2 v = [v, v]"
  by (simp add: numeral_2_eq_2)

lemma zeros_2: "zeros 2 = [Some 0, Some 0]"
  by (simp add: zeros_def replicate_2)

lemma zeros_4: "zeros 4 = [Some 0, Some 0, Some 0, Some 0]"
  by (simp add: zeros_def eval_nat_numeral)

lemma example_init_gap:
  "SimpleVisionTransformer_init (example_args 1 1 2 ''none'' ''gap'' 0) lib
     = Inr \<lparr>image_size = 1, patch_size = 1, hidden_dim = 2, num_classes = 2, pool_type = ''gap'',
            register = 0, reg = None, conv_proj = lib_conv_proj lib, pos_embedding = None,
            encoder = lib_encoder lib, seq_length = 1,
            heads = [(''head'', Linear [[Some 0, Some 0], [Some 0, Some 0]] [Some 0, Some 0])]\<rparr>"
  by (simp add: SimpleVisionTransformer_init_def bind_err_def Let_def encoder_init_def
      heads_init_def example_args_def zeros_2 replicate_2)

lemma example_features_gap:
  "features \<lparr>image_size = 1, patch_size = 1, hidden_dim = 2, num_classes = 2, pool_type = ''gap'',
            register = 0, reg = None,
            conv_proj = lib_conv_proj (example_library 2 [[[[Some 1]], [[Some 2]]]]),
            pos_embedding = None,
            encoder = lib_encoder (example_library 2 [[[[Some 1]], [[Some 2]]]]), seq_length = 1,
            heads = [(''head'', Linear [[Some 0, Some 0], [Some 0, Some 0]] [Some 0, Some 0])]\<rparr>
      (example_batch 1) = Inr [[Some 1, Some 2]]"
  by (simp add: features_def process_input_def bind_err_def Let_def example_batch_def
      example_library_def mean_tokens_def transpose_column transpose_row fsum_def fadd_def)

lemma example_head: 
  "sequential [(''head'', Linear [[Some 0, Some 0], [Some 0, Some 0]] [Some 0, Some 0])]
     [[Some 1, Some 2]] = [[Some 0, Some 0]]"
  by (simp add: sequential_def dot_def fsum_def fadd_def fmul_def)

lemma example_forward_nan_pixel:
  "forward F \<lparr>image_size = 1, patch_size = 1, hidden_dim = 2, num_classes = 2, pool_type = ''gap'',
            register = 0, reg = None, conv_proj = lib_conv_proj example_pixel_library,
            pos_embedding = None, encoder = lib_encoder example_pixel_library, seq_length = 1,
            heads = [(''head'', Linear [[Some 0, Some 0], [Some 0, Some 0]] [Some 0, Some 0])]\<rparr>
      (example_pixel_batch [None, Some 0, Some 0]) lam None None = Inr (Logits [[None, None]])"
  by (simp add: forward_def features_def process_input_def bind_err_def Let_def
      example_pixel_batch_def example_pixel_library_def mean_tokens_def transpose_column
      transpose_row fsum_def fadd_def fmul_def sequential_def dot_def)

text \<open>
  Claim C1: for a constructed model and a batch of the configured height and width
  (with a library whose encoder keeps token counts and whose learned embeddings have
  the requested number of rows), the logits are the heads applied to the pooled
  features of the batch.  With both targets, when the library's log-softmax and
  negative log-likelihood return, \<^verbatim>\<open>forward\<close> returns these logits and
  \<open>lam * NLL (log_softmax logits) target1 + (1 - lam) * NLL (log_softmax logits) target2\<close>,
  and when one of these calls raises, \<^verbatim>\<open>forward\<close> raises the same exception; with
  \<open>lam = 1\<close> and equal targets the loss is the cross-entropy against the target; with a
  target absent \<^verbatim>\<open>forward\<close> returns the logits alone.
\<close>

theorem forward_loss:
  assumes init: "SimpleVisionTransformer_init a lib = Inr m"
    and shape: "shape_h x = image_size m" "shape_w x = image_size m"
    and enc: "\<forall>ts. map length (lib_encoder lib ts) = map length ts"
    and emb: "\<forall>k. length (lib_learned_embeddings lib k) = k"
  shows "\<exists>f. features m x = Inr f
      \<and> (\<forall>lp a b. log_softmax F (sequential (heads m) f) = Inr lp
                  \<and> nll_loss F lp t1 = Inr a \<and> nll_loss F lp t2 = Inr b
            \<longrightarrow> forward F m x lam (Some t1) (Some t2)
                 = Inr (LogitsLoss (sequential (heads m) f)
                          (fadd (fmul (Some lam) a) (fmul (Some (1 - lam)) b))))
      \<and> (\<forall>c. cross_entropy F (sequential (heads m) f) t = Inr c
            \<longrightarrow> forward F m x 1 (Some t) (Some t) = Inr (LogitsLoss (sequential (heads m) f) c))
      \<and> forward F m x lam None (Some t2) = Inr (Logits (sequential (heads m) f))
      \<and> forward F m x lam (Some t1) None = Inr (Logits (sequential (heads m) f))
      \<and> forward F m x lam None None = Inr (Logits (sequential (heads m) f))
      \<and> (\<forall>e. log_softmax F (sequential (heads m) f) = Inl e
            \<longrightarrow> forward F m x lam (Some t1) (Some t2) = Inl (raise_lib e))
      \<and> (\<forall>lp e. log_softmax F (sequential (heads m) f) = Inr lp \<and> nll_loss F lp t1 = Inl e
            \<longrightarrow> forward F m x lam (Some t1) (Some t2) = Inl (raise_lib e))
      \<and> (\<forall>lp a e. log_softmax F (sequential (heads m) f) = Inr lp
                  \<and> nll_loss F lp t1 = Inr a \<and> nll_loss F lp t2 = Inl e
            \<longrightarrow> forward F m x lam (Some t1) (Some t2) = Inl (raise_lib e))"
proof -
  from features_returns [OF assms] obtain f where f: "features m x = Inr f" by blast
  note fw = forward_of_features [OF f]
  have "\<forall>lp a b. log_softmax F (sequential (heads m) f) = Inr lp
                  \<and> nll_loss F lp t1 = Inr a \<and> nll_loss F lp t2 = Inr b
            \<longrightarrow> forward F m x lam (Some t1) (Some t2)
                 = Inr (LogitsLoss (sequential (heads m) f)
                          (fadd (fmul (Some lam) a) (fmul (Some (1 - lam)) b)))"
    by (simp add: fw loss_fn_returns bind_err_def)
  moreover have "\<forall>c. cross_entropy F (sequential (heads m) f) t = Inr c
            \<longrightarrow> forward F m x 1 (Some t) (Some t) = Inr (LogitsLoss (sequential (heads m) f) c)"
    by (simp add: fw loss_fn_cross_entropy bind_err_def)
  moreover have "forward F m x lam None (Some t2) = Inr (Logits (sequential (heads m) f))"
    "forward F m x lam (Some t1) None = Inr (Logits (sequential (heads m) f))"
    "forward F m x lam None None = Inr (Logits (sequential (heads m) f))"
    by (simp_all add: fw)
  moreover have "\<forall>e. log_softmax F (sequential (heads m) f) = Inl e
            \<longrightarrow> forward F m x lam (Some t1) (Some t2) = Inl (raise_lib e)"
    by (simp add: fw loss_fn_raises(1) bind_err_def)
  moreover have "\<forall>lp e. log_softmax F (sequential (heads m) f) = Inr lp \<and> nll_loss F lp t1 = Inl e
            \<longrightarrow> forward F m x lam (Some t1) (Some t2) = Inl (raise_lib e)"
    by (simp add: fw loss_fn_raises(2) bind_err_def)
  moreover have "\<forall>lp a e. log_softmax F (sequential (heads m) f) = Inr lp
                  \<and> nll_loss F lp t1 = Inr a \<and> nll_loss F lp t2 = Inl e
            \<longrightarrow> forward F m x lam (Some t1) (Some t2) = Inl (raise_lib e)"
    by (simp add: fw loss_fn_raises(3) bind_err_def)
  ultimately show ?thesis using f by blast
qed

theorem forward_loss_witness:
  "(\<forall>ts. map length (lib_encoder (example_library 2 [[[[Some 1]], [[Some 2]]]]) ts) = map length ts)
   \<and> (\<forall>k. length (lib_learned_embeddings (example_library 2 [[[[Some 1]], [[Some 2]]]]) k) = k)
   \<and> (\<exists>m. SimpleVisionTransformer_init (example_args 1 1 2 ''none'' ''gap'' 0)
             (example_library 2 [[[[Some 1]], [[Some 2]]]]) = Inr m
          \<and> shape_h (example_batch 1) = image_size m \<and> shape_w (example_batch 1) = image_size m
          \<and> features m (example_batch 1) = Inr [[Some 1, Some 2]]
          \<and> sequential (heads m) [[Some 1, Some 2]] = [[Some 0, Some 0]]
          \<and> forward example_functional m (example_batch 1) (1 / 4) (Some 0) (Some 1)
              = Inr (LogitsLoss [[Some 0, Some 0]] (Some (3 / 4)))
          \<and> forward example_functional m (example_batch 1) 1 (Some 1) (Some 1)
              = Inr (LogitsLoss [[Some 0, Some 0]] (Some 1))
          \<and> forward example_functional m (example_batch 1) (1 / 4) None (Some 1)
              = Inr (Logits [[Some 0, Some 0]])
          \<and> forward example_functional m (example_batch 1) (1 / 4) (Some 5) (Some 1)
              = Inl IndexError)"
proof -
  let ?lib = "example_library 2 [[[[Some 1]], [[Some 2]]]]"
  let ?m = "\<lparr>image_size = 1, patch_size = 1, hidden_dim = 2, num_classes = 2, pool_type = ''gap'',
            register = 0, reg = None, conv_proj = lib_conv_proj ?lib,
            pos_embedding = None, encoder = lib_encoder ?lib, seq_length = 1,
            heads = [(''head'', Linear [[Some 0, Some 0], [Some 0, Some 0]] [Some 0, Some 0])]\<rparr>"
  let ?out = "[[Some (0 :: real), Some 0]]"
  have enc: "\<forall>ts. map length (lib_encoder ?lib ts) = map length ts"
    and emb: "\<forall>k. length (lib_learned_embeddings ?lib k) = k"
    by (simp_all add: example_library_def)
  have m: "SimpleVisionTransformer_init (example_args 1 1 2 ''none'' ''gap'' 0) ?lib = Inr ?m"
    by (rule example_init_gap)
  have sh: "shape_h (example_batch 1) = image_size ?m" "shape_w (example_batch 1) = image_size ?m"
    by (simp_all add: example_batch_def)
  have ft: "features ?m (example_batch 1) = Inr [[Some 1, Some 2]]"
    by (rule example_features_gap)
  have hd: "sequential (heads ?m) [[Some 1, Some 2]] = ?out"
    using example_head by simp
  have ls: "log_softmax example_functional ?out = Inr ?out"
    by (simp add: example_functional_def)
  have n0: "nll_loss example_functional ?out 0 = Inr (Some 0)"
    and n1: "nll_loss example_functional ?out 1 = Inr (Some 1)"
    and n5: "nll_loss example_functional ?out 5 = Inl Lib_IndexError"
    by (simp_all add: example_functional_def)
  have ce: "cross_entropy example_functional ?out 1 = Inr (Some 1)"
    using ls n1 by (simp add: cross_entropy_def bind_err_def lib_call_def)
  from forward_loss [OF m sh enc emb, of example_functional 0 1 "1 / 4" 1] obtain f where
    f: "features ?m (example_batch 1) = Inr f"
    and both: "\<forall>lp a b. log_softmax example_functional (sequential (heads ?m) f) = Inr lp
                  \<and> nll_loss example_functional lp 0 = Inr a \<and> nll_loss example_functional lp 1 = Inr b
            \<longrightarrow> forward example_functional ?m (example_batch 1) (1 / 4) (Some 0) (Some 1)
                 = Inr (LogitsLoss (sequential (heads ?m) f)
                          (fadd (fmul (Some (1 / 4)) a) (fmul (Some (1 - 1 / 4)) b)))"
    and same: "\<forall>c. cross_entropy example_functional (sequential (heads ?m) f) 1 = Inr c
            \<longrightarrow> forward example_functional ?m (example_batch 1) 1 (Some 1) (Some 1)
                 = Inr (LogitsLoss (sequential (heads ?m) f) c)"
    and none: "forward example_functional ?m (example_batch 1) (1 / 4) None (Some 1)
                 = Inr (Logits (sequential (heads ?m) f))"
    by blast
  from f ft have feq: "f = [[Some 1, Some 2]]" by simp
  from both [rule_format, of ?out "Some 0" "Some 1"]
  have r1: "forward example_functional ?m (example_batch 1) (1 / 4) (Some 0) (Some 1)
              = Inr (LogitsLoss ?out (Some (3 / 4)))"
    unfolding feq hd using ls n0 n1 by (simp add: fadd_def fmul_def)
  from same [rule_format, of "Some 1"]
  have r2: "forward example_functional ?m (example_batch 1) 1 (Some 1) (Some 1)
              = Inr (LogitsLoss ?out (Some 1))"
    unfolding feq hd using ce by simp
  from none have r3: "forward example_functional ?m (example_batch 1) (1 / 4) None (Some 1)
              = Inr (Logits ?out)"
    unfolding feq hd .
  from forward_loss [OF m sh enc emb, of example_functional 5 1 "1 / 4" 1] obtain f' where
    f': "features ?m (example_batch 1) = Inr f'"
    and raises: "\<forall>lp e. log_softmax example_functional (sequential (heads ?m) f') = Inr lp
                  \<and> nll_loss example_functional lp 5 = Inl e
            \<longrightarrow> forward example_functional ?m (example_batch 1) (1 / 4) (Some 5) (Some 1)
                 = Inl (raise_lib e)"
    by blast
  from f' ft have feq': "f' = [[Some 1, Some 2]]" by simp
  from raises [rule_format, of ?out Lib_IndexError]
  have r4: "forward example_functional ?m (example_batch 1) (1 / 4) (Some 5) (Some 1) = Inl IndexError"
    unfolding feq' hd using ls n5 by simp
  from enc emb m sh ft hd r1 r2 r3 r4 show ?thesis by blast
qed

subsection \<open>The zero-initialised head\<close>

lemma dot_zeros: "None \<notin> set x \<Longrightarrow> dot x (zeros k) = Some 0"
proof (induction x arbitrary: k)
  case Nil
  then show ?case by (simp add: dot_def fsum_def)
next
  case (Cons v x)
  then obtain r where r: "v = Some r" by (cases v) auto
  show ?case
  proof (cases k)
    case 0
    then show ?thesis by (simp add: dot_def fsum_def zeros_def)
  next
    case (Suc k')
    from Cons have "dot x (zeros k') = Some 0" by simp
    then show ?thesis
      by (simp add: Suc r dot_def fsum_def zeros_def fmul_def fadd_def)
  qed
qed

lemma zero_linear_row:
  "None \<notin> set x \<Longrightarrow>
   map (\<lambda>(wr, bi). fadd (dot x wr) bi) (zip (replicate c (zeros k)) (zeros c)) = zeros c"
  by (simp add: zeros_def [of c] zip_replicate dot_zeros fadd_def)

lemma zero_linear:
  "None \<notin> set (concat g) \<Longrightarrow>
   apply_layer (Linear (replicate c (zeros k)) (zeros c)) g = replicate (length g) (zeros c)"
  by (induction g) (simp_all add: zero_linear_row)

lemma length_apply_layer: "length (apply_layer l g) = length g"
  by (cases l) simp_all

lemma length_sequential: "length (sequential ls g) = length g"
  unfolding sequential_def by (induction ls arbitrary: g) (simp_all add: length_apply_layer)

lemma sequential_snoc: "sequential (ls @ [l]) g = apply_layer (snd l) (sequential ls g)"
  by (simp add: sequential_def)

text \<open>
  Claim C3, as stated: the logits of a freshly constructed model are zero for every
  input batch of the configured shape, whatever the upstream features.  The head
  computes \<open>x * 0 + 0\<close>, and this is NaN, not zero, for a feature \<open>x\<close> that is NaN: a
  feature row with a NaN gives two NaN logits, and so does a one-pixel batch of the
  configured shape whose first channel is NaN, on a freshly constructed model with
  image size \<open>1\<close>, hidden dimension \<open>2\<close> and no positional embedding.
\<close>

theorem fresh_logits_zero_counterexample:
  "sequential [(''head'', Linear (replicate 2 (zeros 4)) (zeros 2))] [[None, Some 1, Some 1, Some 1]]
     = [[None, None]]
   \<and> bind_err (SimpleVisionTransformer_init (example_args 1 1 2 ''none'' ''gap'' 0)
                example_pixel_library)
        (\<lambda>m. forward example_functional m (example_pixel_batch [None, Some 0, Some 0]) 1 None None)
     = Inr (Logits [[None, None]])"
proof -
  have "sequential [(''head'', Linear (replicate 2 (zeros 4)) (zeros 2))] [[None, Some 1, Some 1, Some 1]]
     = [[None, None]]"
    by (simp add: sequential_def zeros_2 zeros_4 replicate_2 dot_def fsum_def fadd_def fmul_def)
  moreover have "bind_err (SimpleVisionTransformer_init (example_args 1 1 2 ''none'' ''gap'' 0)
                example_pixel_library)
        (\<lambda>m. forward example_functional m (example_pixel_batch [None, Some 0, Some 0]) 1 None None)
     = Inr (Logits [[None, None]])"
    unfolding example_init_gap
    using example_forward_nan_pixel [of example_functional 1] by (simp add: bind_err_def)
  ultimately show ?thesis by simp
qed

text \<open>
  Claim C3, amended: for a freshly constructed model and a batch of the configured
  height and width (with a library whose encoder keeps token counts and whose learned
  embeddings have the requested number of rows), if no activation entering the final
  linear layer is NaN, then the logits that \<^verbatim>\<open>forward\<close> returns are all exactly zero,
  one row of \<open>num_classes\<close> zeros per row of features.
\<close>

theorem fresh_logits_zero:
  assumes init: "SimpleVisionTransformer_init a lib = Inr m"
    and shape: "shape_h x = image_size m" "shape_w x = image_size m"
    and enc: "\<forall>ts. map length (lib_encoder lib ts) = map length ts"
    and emb: "\<forall>k. length (lib_learned_embeddings lib k) = k"
    and fin: "\<forall>f. features m x = Inr f \<longrightarrow> None \<notin> set (concat (sequential (butlast (heads m)) f))"
  shows "\<exists>f. features m x = Inr f
      \<and> sequential (heads m) f = replicate (length f) (zeros (num_classes m))
      \<and> forward F m x lam None None = Inr (Logits (replicate (length f) (zeros (num_classes m))))
      \<and> (\<forall>loss. loss_fn F (replicate (length f) (zeros (num_classes m))) lam t1 t2 = Inr loss
            \<longrightarrow> forward F m x lam (Some t1) (Some t2)
                 = Inr (LogitsLoss (replicate (length f) (zeros (num_classes m))) loss))"
proof -
  from features_returns [OF init shape enc emb] obtain f where f: "features m x = Inr f" by blast
  from init_fields(7) [OF init] obtain pre k where
    hs: "heads m = pre @ [(''head'', Linear (replicate (num_classes m) (zeros k)) (zeros (num_classes m)))]"
    by blast
  from fin f have "None \<notin> set (concat (sequential pre f))" by (simp add: hs)
  then have "apply_layer (Linear (replicate (num_classes m) (zeros k)) (zeros (num_classes m)))
               (sequential pre f)
             = replicate (length (sequential pre f)) (zeros (num_classes m))"
    by (rule zero_linear)
  then have z: "sequential (heads m) f = replicate (length f) (zeros (num_classes m))"
    by (simp only: hs sequential_snoc length_sequential snd_conv)
  with f show ?thesis
    by (simp add: forward_of_features [OF f] bind_err_def)
qed

theorem fresh_logits_zero_witness:
  "\<exists>m. SimpleVisionTransformer_init (example_args 1 1 2 ''none'' ''gap'' 0)
          (example_library 2 [[[[Some 1]], [[Some 2]]]]) = Inr m
      \<and> shape_h (example_batch 1) = image_size m \<and> shape_w (example_batch 1) = image_size m
      \<and> features m (example_batch 1) = Inr [[Some 1, Some 2]]
      \<and> None \<notin> set (concat (sequential (butlast (heads m)) [[Some 1, Some 2]]))
      \<and> forward example_functional m (example_batch 1) 1 None None = Inr (Logits [[Some 0, Some 0]])
      \<and> forward example_functional m (example_batch 1) (1 / 4) (Some 0) (Some 1)
          = Inr (LogitsLoss [[Some 0, Some 0]] (Some (3 / 4)))"
proof -
  let ?lib = "example_library 2 [[[[Some 1]], [[Some 2]]]]"
  let ?m = "\<lparr>image_size = 1, patch_size = 1, hidden_dim = 2, num_classes = 2, pool_type = ''gap'',
            register = 0, reg = None, conv_proj = lib_conv_proj ?lib,
            pos_embedding = None, encoder = lib_encoder ?lib, seq_length = 1,
            heads = [(''head'', Linear [[Some 0, Some 0], [Some 0, Some 0]] [Some 0, Some 0])]\<rparr>"
  let ?out = "[[Some (0 :: real), Some 0]]"
  have enc: "\<forall>ts. map length (lib_encoder ?lib ts) = map length ts"
    and emb: "\<forall>k. length (lib_learned_embeddings ?lib k) = k"
    by (simp_all add: example_library_def)
  have m: "SimpleVisionTransformer_init (example_args 1 1 2 ''none'' ''gap'' 0) ?lib = Inr ?m"
    by (rule example_init_gap)
  have sh: "shape_h (example_batch 1) = image_size ?m" "shape_w (example_batch 1) = image_size ?m"
    by (simp_all add: example_batch_def)
  have ft: "features ?m (example_batch 1) = Inr [[Some 1, Some 2]]"
    by (rule example_features_gap)
  have fn: "None \<notin> set (concat (sequential (butlast (heads ?m)) [[Some 1, Some 2]]))"
    by (simp add: sequential_def)
  have fin: "\<forall>f. features ?m (example_batch 1) = Inr f
               \<longrightarrow> None \<notin> set (concat (sequential (butlast (heads ?m)) f))"
  proof (intro allI impI)
    fix f assume "features ?m (example_batch 1) = Inr f"
    with ft have "f = [[Some 1, Some 2]]" by simp
    with fn show "None \<notin> set (concat (sequential (butlast (heads ?m)) f))" by simp
  qed
  have lf: "loss_fn example_functional ?out (1 / 4) 0 1 = Inr (Some (3 / 4))"
    by (simp add: loss_fn_def bind_err_def lib_call_def example_functional_def fadd_def fmul_def)
  from fresh_logits_zero [OF m sh enc emb fin, of example_functional "1 / 4" 0 1] obtain f where
    f: "features ?m (example_batch 1) = Inr f"
    and z: "forward example_functional ?m (example_batch 1) (1 / 4) None None
              = Inr (Logits (replicate (length f) (zeros (num_classes ?m))))"
    and zl: "\<forall>loss. loss_fn example_functional (replicate (length f) (zeros (num_classes ?m))) (1 / 4) 0 1
                = Inr loss
            \<longrightarrow> forward example_functional ?m (example_batch 1) (1 / 4) (Some 0) (Some 1)
                 = Inr (LogitsLoss (replicate (length f) (zeros (num_classes ?m))) loss)"
    by blast
  from f ft have feq: "f = [[Some 1, Some 2]]" by simp
  have rz: "replicate (length f) (zeros (num_classes ?m)) = ?out"
    by (simp add: feq zeros_2)
  from fresh_logits_zero [OF m sh enc emb fin, of example_functional 1 0 1] obtain g where
    g: "features ?m (example_batch 1) = Inr g"
    and z1: "forward example_functional ?m (example_batch 1) 1 None None
              = Inr (Logits (replicate (length g) (zeros (num_classes ?m))))"
    by blast
  from g ft have "g = [[Some 1, Some 2]]" by simp
  with z1 have r1: "forward example_functional ?m (example_batch 1) 1 None None = Inr (Logits ?out)"
    by (simp add: zeros_2)
  from zl [rule_format, of "Some (3 / 4)"] lf
  have r2: "forward example_functional ?m (example_batch 1) (1 / 4) (Some 0) (Some 1)
              = Inr (LogitsLoss ?out (Some (3 / 4)))"
    unfolding rz by simp
  from m sh ft fn r1 r2 show ?thesis by blast
qed

end
